theory Spec2Isabelle
  imports Main
begin

section \<open>C strings, pointers and faults\<close>

text \<open>
  A C string is modelled by the list of its characters before the terminating NUL, so
  the end of the list plays the role of the terminator and no list holds a NUL.
  A nullable \<^verbatim>\<open>const char *\<close> is a \<open>string option\<close> (\<open>None\<close> is NULL).

  Three fields of a table entry are compared by pointer identity with the canonical
  arrays \<^verbatim>\<open>g_mtd_device\<close>, \<^verbatim>\<open>g_mmc_device\<close>, \<^verbatim>\<open>g_raw\<close> and \<^verbatim>\<open>g_package_file\<close>;
  each of these arrays starts with \<^verbatim>\<open>"@\0"\<close>, so read as a C string each one is \<^verbatim>\<open>"@"\<close>.
\<close>

datatype cptr = G_mtd_device | G_mmc_device | G_raw | G_package_file | Literal string

fun cstring :: "cptr \<Rightarrow> string" where
  "cstring (Literal s) = s"
| "cstring G_mtd_device = ''@''"
| "cstring G_mmc_device = ''@''"
| "cstring G_raw = ''@''"
| "cstring G_package_file = ''@''"

text \<open>What C leaves undefined is a value of the model: a read through NULL, and a
  read or write outside an array.\<close>

datatype fault = NullDereference | OutOfBounds

text \<open>\<^verbatim>\<open>strncmp\<close> and \<^verbatim>\<open>strcmp\<close>: only the sign of the result is specified by C.\<close>

fun strncmp :: "string \<Rightarrow> string \<Rightarrow> nat \<Rightarrow> int" where
  "strncmp [] [] n = 0"
| "strncmp [] (c2 # s2) n = (if n = 0 then 0 else - 1)"
| "strncmp (c1 # s1) [] n = (if n = 0 then 0 else 1)"
| "strncmp (c1 # s1) (c2 # s2) n =
     (if n = 0 then 0
      else if c1 = c2 then strncmp s1 s2 (n - 1)
      else int (of_char c1) - int (of_char c2))"

fun strcmp :: "string \<Rightarrow> string \<Rightarrow> int" where
  "strcmp [] [] = 0"
| "strcmp [] (c2 # s2) = - 1"
| "strcmp (c1 # s1) [] = 1"
| "strcmp (c1 # s1) (c2 # s2) =
     (if c1 = c2 then strcmp s1 s2 else int (of_char c1) - int (of_char c2))"

text \<open>Writes into a caller's buffer of \<open>length buf\<close> bytes: \<^verbatim>\<open>memcpy(buf + off, src, n)\<close>
  and \<^verbatim>\<open>buf[i] = c\<close>. NUL is \<open>CHR 0x00\<close>.\<close>

definition memcpy :: "string \<Rightarrow> nat \<Rightarrow> string \<Rightarrow> fault + string" where
  "memcpy buf off src =
     (if off + length src \<le> length buf
      then Inr (take off buf @ src @ drop (off + length src) buf)
      else Inl OutOfBounds)"

definition store :: "string \<Rightarrow> nat \<Rightarrow> char \<Rightarrow> fault + string" where
  "store buf i c = (if i < length buf then Inr (buf[i := c]) else Inl OutOfBounds)"

definition and_then :: "fault + 'a \<Rightarrow> ('a \<Rightarrow> fault + 'b) \<Rightarrow> fault + 'b" where
  "and_then r f = (case r of Inl e \<Rightarrow> Inl e | Inr x \<Rightarrow> f x)"

section \<open>The root table (roots.h, roots.c)\<close>

record RootInfo =
  name :: string
  device :: "cptr option"
  device2 :: "cptr option"
  partition_name :: "string option"
  mount_point :: "string option"
  filesystem :: "cptr option"
  filesystem_options :: "string option"

text \<open>\<^verbatim>\<open>g_fs_options\<close>: the filesystems that are probed, with their mount options.\<close>

definition g_fs_options :: "(string \<times> string) list" where
  "g_fs_options =
     [(''rfs'', ''llw,check=no''),
      (''ext4'', ''noatime,nodiratime,nodev,data=ordered'')]"

definition mk_root ::
  "string \<Rightarrow> cptr option \<Rightarrow> cptr option \<Rightarrow> string option \<Rightarrow> string option \<Rightarrow>
   cptr option \<Rightarrow> string option \<Rightarrow> RootInfo" where
  "mk_root n d d2 p m f fo =
     \<lparr>name = n, device = d, device2 = d2, partition_name = p, mount_point = m,
      filesystem = f, filesystem_options = fo\<rparr>"

text \<open>\<^verbatim>\<open>g_roots\<close> with the defaults roots.h gives to the board macros
  (\<^verbatim>\<open>SDCARD_DEVICE_SECONDARY\<close> defaults to \<^verbatim>\<open>g_mtd_device\<close>).\<close>

definition g_roots :: "RootInfo list" where
  "g_roots =
     [mk_root ''CACHE:'' (Some (Literal ''/dev/block/stl11'')) None (Some ''cache'')
        (Some ''/cache'') (Some (Literal ''unknown'')) None,
      mk_root ''DATA:'' (Some (Literal ''/dev/block/mmcblk0p2'')) None (Some ''userdata'')
        (Some ''/data'') (Some (Literal ''unknown'')) None,
      mk_root ''DATADATA:'' (Some (Literal ''/dev/block/stl10'')) None (Some ''datadata'')
        (Some ''/dbdata'') (Some (Literal ''unknown'')) None,
      mk_root ''SYSTEM:'' (Some (Literal ''/dev/block/stl9'')) None (Some ''system'')
        (Some ''/system'') (Some (Literal ''unknown'')) None,
      mk_root ''PACKAGE:'' None None None None (Some G_package_file) None,
      mk_root ''BOOT:'' (Some G_mtd_device) None (Some ''boot'') None (Some G_raw) None,
      mk_root ''RECOVERY:'' (Some G_mtd_device) None (Some ''recovery'') (Some ''/'')
        (Some G_raw) None,
      mk_root ''SDCARD:'' (Some (Literal ''/dev/block/mmcblk1p1'')) (Some G_mtd_device) None
        (Some ''/sdcard'') (Some (Literal ''vfat'')) None,
      mk_root ''SDEXT:'' (Some (Literal ''/dev/block/mmcblk1p2'')) None None
        (Some ''/sd-ext'') (Some (Literal ''auto'')) None,
      mk_root ''MBM:'' (Some G_mtd_device) None (Some ''mbm'') None (Some G_raw) None,
      mk_root ''TMP:'' None None None (Some ''/tmp'') None None]"

subsection \<open>\<^verbatim>\<open>get_root_info_for_path\<close>\<close>

text \<open>The first loop: the offset of the first colon, or of the terminator.\<close>

fun first_colon :: "string \<Rightarrow> nat" where
  "first_colon [] = 0"
| "first_colon (c # cs) = (if c = CHR '':'' then 0 else Suc (first_colon cs))"

text \<open>The second loop: the index of the first entry whose name agrees with the path on
  the first \<open>len\<close> characters. The source returns a pointer to the entry; the model
  returns its index, since two operations write through that pointer.\<close>

fun scan_roots :: "RootInfo list \<Rightarrow> string \<Rightarrow> nat \<Rightarrow> nat option" where
  "scan_roots [] root_path len = None"
| "scan_roots (info # rest) root_path len =
     (if strncmp (name info) root_path len = 0 then Some 0
      else map_option Suc (scan_roots rest root_path len))"

definition get_root_info_for_path :: "RootInfo list \<Rightarrow> string \<Rightarrow> nat option" where
  "get_root_info_for_path roots root_path =
     (let c = first_colon root_path in
      if c = length root_path then None
      else scan_roots roots root_path (c + 1))"

subsection \<open>The package root\<close>

type_synonym ZipArchive = nat

text \<open>\<^verbatim>\<open>g_package\<close> and \<^verbatim>\<open>g_package_path\<close>, with the strings handed to \<^verbatim>\<open>free\<close>.\<close>

record package_root =
  g_package :: "ZipArchive option"
  g_package_path :: "string option"
  freed :: "string list"

text \<open>\<^verbatim>\<open>strdup\<close> returns a copy, or NULL when the allocation fails; \<open>alloc_ok\<close> says
  which. \<^verbatim>\<open>free(NULL)\<close> does nothing.\<close>

definition strdup :: "bool \<Rightarrow> string \<Rightarrow> string option" where
  "strdup alloc_ok s = (if alloc_ok then Some s else None)"

definition register_package_root ::
  "bool \<Rightarrow> ZipArchive option \<Rightarrow> string option \<Rightarrow> package_root \<Rightarrow>
   fault + (int \<times> package_root)" where
  "register_package_root alloc_ok package package_path st =
     (case package of
        Some a \<Rightarrow>
          (case package_path of
             None \<Rightarrow> Inl NullDereference
           | Some p \<Rightarrow>
               (case strdup alloc_ok p of
                  None \<Rightarrow> Inr (- 1, st)
                | Some q \<Rightarrow> Inr (0, st\<lparr>g_package := package, g_package_path := Some q\<rparr>)))
      | None \<Rightarrow>
          Inr (0, st\<lparr>g_package := None, g_package_path := None,
                     freed := (case g_package_path st of
                                 None \<Rightarrow> freed st
                               | Some p \<Rightarrow> freed st @ [p])\<rparr>))"

definition is_package_root_path :: "RootInfo list \<Rightarrow> string \<Rightarrow> bool" where
  "is_package_root_path roots root_path =
     (case get_root_info_for_path roots root_path of
        None \<Rightarrow> False
      | Some i \<Rightarrow> filesystem (roots ! i) = Some G_package_file)"

text \<open>\<^verbatim>\<open>translate_package_root_path\<close>: \<open>Inr None\<close> is the NULL return, which leaves the
  buffer and \<^verbatim>\<open>*out_package\<close> as they were; \<open>Inr (Some (buf, pkg))\<close> is the return of
  \<^verbatim>\<open>out_buf\<close>, with the buffer's new contents and the archive stored in \<^verbatim>\<open>*out_package\<close>.
  Advancing \<^verbatim>\<open>root_path\<close> by more than its length leaves the string.\<close>

definition translate_package_root_path ::
  "RootInfo list \<Rightarrow> package_root \<Rightarrow> string \<Rightarrow> string \<Rightarrow> nat \<Rightarrow>
   fault + (string \<times> ZipArchive option) option" where
  "translate_package_root_path roots st root_path out_buf out_buf_len =
     (case get_root_info_for_path roots root_path of
        None \<Rightarrow> Inr None
      | Some i \<Rightarrow>
          if filesystem (roots ! i) = Some G_package_file then
            (let root_len = length (name (roots ! i)) in
             if length root_path < root_len then Inl OutOfBounds
             else
               (let rest = drop root_len root_path;
                    root_path_len = length rest in
                if out_buf_len < root_path_len + 1 then Inr None
                else
                  and_then (memcpy out_buf 0 (rest @ [CHR 0x00]))
                    (\<lambda>buf. Inr (Some (buf, g_package st)))))
          else Inr None)"

subsection \<open>\<^verbatim>\<open>translate_root_path\<close>\<close>

text \<open>\<open>Inr None\<close> is the NULL return (nothing has been written then); \<open>Inr (Some buf)\<close>
  is the return of \<^verbatim>\<open>out_buf\<close> with its new contents. With an empty mount point
  \<^verbatim>\<open>out_buf[mp_len - 1]\<close> reads before the buffer.\<close>

definition translate_root_path ::
  "RootInfo list \<Rightarrow> string \<Rightarrow> string \<Rightarrow> nat \<Rightarrow> fault + string option" where
  "translate_root_path roots root_path out_buf out_buf_len =
     (if out_buf_len < 1 then Inr None
      else
        (case get_root_info_for_path roots root_path of
           None \<Rightarrow> Inr None
         | Some i \<Rightarrow>
             (case mount_point (roots ! i) of
                None \<Rightarrow> Inr None
              | Some mp \<Rightarrow>
                  if length root_path < length (name (roots ! i)) then Inl OutOfBounds
                  else
                    (let rest = dropWhile (\<lambda>c. c = CHR ''/'')
                                  (drop (length (name (roots ! i))) root_path);
                         mp_len = length mp;
                         rp_len = length rest in
                     if mp_len + 1 + rp_len + 1 > out_buf_len then Inr None
                     else
                       and_then (memcpy out_buf 0 mp) (\<lambda>b1.
                       if mp_len = 0 \<or> length b1 < mp_len then Inl OutOfBounds
                       else
                         and_then
                           (if b1 ! (mp_len - 1) = CHR ''/'' then Inr (b1, mp_len)
                            else and_then (store b1 mp_len CHR ''/'')
                                   (\<lambda>b2. Inr (b2, mp_len + 1)))
                           (\<lambda>(b2, mp_len').
                              and_then (memcpy b2 mp_len' rest)
                                (\<lambda>b3. and_then (store b3 (mp_len' + rp_len) (CHR 0x00))
                                        (\<lambda>b4. Inr (Some b4)))))))))"

section \<open>The collaborators: mount table, flash and MMC utilities, external commands\<close>

text \<open>
  roots.c calls into the mount-table scanner (mtdutils/mounts.h), the flash and MMC
  utilities, \<^verbatim>\<open>mount(2)\<close>, \<^verbatim>\<open>mkdir(2)\<close> and \<^verbatim>\<open>__system\<close>; none of them is part of the
  sources at hand. They are modelled on a \<open>world\<close>: the set of mount points of the live
  mount table (one volume for each mount point), and the trace of the calls made so far.
  What a call returns is decided by an \<open>env\<close>, a record of outcome functions that may
  depend on the whole world (and so on the history); what a successful call does to the
  mount table is fixed below: a mount that returns 0 puts its mount point into the table,
  an unmount that returns 0 takes it out, and nothing else changes the table.
\<close>

type_synonym partition = nat

text \<open>The three command lines roots.c builds with \<^verbatim>\<open>sprintf\<close> and \<^verbatim>\<open>strcat\<close>.
  \<^verbatim>\<open>%s\<close> of a NULL pointer is printed as \<^verbatim>\<open>(null)\<close>, as Android's libc does.\<close>

datatype shell_cmd =
    MountCmd string string string "string option"
  | StlFormat string
  | Mke2fs string string

fun cmd_text :: "shell_cmd \<Rightarrow> string" where
  "cmd_text (MountCmd fs options dev mp) =
     ''mount -t '' @ fs @ '' -o'' @ options @ '' '' @ dev @ '' '' @
       (case mp of None \<Rightarrow> ''(null)'' | Some m \<Rightarrow> m)"
| "cmd_text (StlFormat dev) = ''stl.format '' @ dev"
| "cmd_text (Mke2fs fs dev) =
     ''/sbin/mke2fs -T '' @ fs @ '' -F -j -q -m 0 -b 4096 '' @
       (if 3 < length fs \<and> fs ! 3 = CHR ''2'' then [] else ''-O ^huge_file,extent '') @
       '' '' @ dev"

datatype event =
    ScanMountedVolumes
  | UnmountMountedVolume string
  | Mkdir string
  | Mount string "string option" string
  | System string
  | MtdScanPartitions
  | MtdFindPartitionByName "string option"
  | MtdMountPartition partition "string option" "string option"
  | MtdWritePartition partition
  | MtdEraseBlocks partition
  | MtdWriteClose partition
  | MmcScanPartitions
  | MmcFindPartitionByName "string option"
  | MmcFormatExt3 partition
  | FormatNonMtdDevice string

record world =
  mounts :: "string set"
  trace :: "event list"

record env =
  scan_result :: "world \<Rightarrow> int"
  unmount_result :: "string \<Rightarrow> world \<Rightarrow> int"
  mount_result :: "string \<Rightarrow> string \<Rightarrow> string \<Rightarrow> world \<Rightarrow> int"
  system_result :: "string \<Rightarrow> world \<Rightarrow> int"
  mtd_partition :: "string option \<Rightarrow> world \<Rightarrow> partition option"
  mtd_mount_result :: "partition \<Rightarrow> string \<Rightarrow> string option \<Rightarrow> world \<Rightarrow> int"
  mtd_open_ok :: "partition \<Rightarrow> world \<Rightarrow> bool"
  mtd_erase_result :: "partition \<Rightarrow> world \<Rightarrow> int"
  mtd_close_result :: "partition \<Rightarrow> world \<Rightarrow> int"
  mmc_partition :: "string option \<Rightarrow> world \<Rightarrow> partition option"
  mmc_format_result :: "partition \<Rightarrow> world \<Rightarrow> int"
  format_non_mtd_result :: "string \<Rightarrow> world \<Rightarrow> int"

definition record_call :: "event \<Rightarrow> world \<Rightarrow> world" where
  "record_call e w = w\<lparr>trace := trace w @ [e]\<rparr>"

definition scan_mounted_volumes :: "env \<Rightarrow> world \<Rightarrow> int \<times> world" where
  \<comment> \<open>Modelled from the spec: the live mount-table scanner's rescan (mounts.h is missing);
      negative when the table cannot be read.\<close>
  "scan_mounted_volumes e w = (scan_result e w, record_call ScanMountedVolumes w)"

definition find_mounted_volume_by_mount_point :: "string \<Rightarrow> world \<Rightarrow> string option" where
  \<comment> \<open>Modelled from the spec: the scanner's find-by-mount-point (mounts.h is missing); a
      volume is named by its mount point.\<close>
  "find_mounted_volume_by_mount_point mp w = (if mp \<in> mounts w then Some mp else None)"

definition unmount_mounted_volume :: "env \<Rightarrow> string \<Rightarrow> world \<Rightarrow> int \<times> world" where
  \<comment> \<open>Modelled from the spec: the scanner's unmount-given-entry (mounts.h is missing);
      0 on success, and then the volume has left the mount table.\<close>
  "unmount_mounted_volume e v w =
     (let r = unmount_result e v w in
      (r, record_call (UnmountMountedVolume v)
            (if r = 0 then w\<lparr>mounts := mounts w - {v}\<rparr> else w)))"

definition sys_mount :: "env \<Rightarrow> string \<Rightarrow> string option \<Rightarrow> string \<Rightarrow> world \<Rightarrow> int \<times> world" where
  \<comment> \<open>Modelled from the spec: \<^verbatim>\<open>mount(2)\<close>, always called with the flags
      \<^verbatim>\<open>MS_NOATIME | MS_NODEV | MS_NODIRATIME\<close> and the data \<^verbatim>\<open>""\<close>; 0 on success, and then
      the target is in the mount table. A NULL target is refused.\<close>
  "sys_mount e dev target fs w =
     (case target of
        None \<Rightarrow> (- 1, record_call (Mount dev None fs) w)
      | Some mp \<Rightarrow>
          (let r = mount_result e dev mp fs w in
           (r, record_call (Mount dev target fs)
                 (if r = 0 then w\<lparr>mounts := insert mp (mounts w)\<rparr> else w))))"

definition sys_system :: "env \<Rightarrow> shell_cmd \<Rightarrow> world \<Rightarrow> int \<times> world" where
  \<comment> \<open>Modelled from the spec: \<^verbatim>\<open>__system\<close> (common.h is missing) run on the text of the
      command; exit status 0 is success, and a successful mount command has put its
      mount point into the mount table.\<close>
  "sys_system e cmd w =
     (let r = system_result e (cmd_text cmd) w in
      (r, record_call (System (cmd_text cmd))
            (case cmd of
               MountCmd fs options dev (Some mp) \<Rightarrow>
                 if r = 0 then w\<lparr>mounts := insert mp (mounts w)\<rparr> else w
             | _ \<Rightarrow> w)))"

definition sys_mkdir :: "string \<Rightarrow> world \<Rightarrow> world" where
  \<comment> \<open>Modelled from the spec: \<^verbatim>\<open>mkdir(2)\<close>, whose result roots.c ignores.\<close>
  "sys_mkdir path w = record_call (Mkdir path) w"

definition mtd_scan_partitions :: "world \<Rightarrow> world" where
  \<comment> \<open>Modelled from the spec: the flash utility's partition rescan (mtdutils.h is missing).\<close>
  "mtd_scan_partitions w = record_call MtdScanPartitions w"

definition mtd_find_partition_by_name ::
  "env \<Rightarrow> string option \<Rightarrow> world \<Rightarrow> partition option \<times> world" where
  \<comment> \<open>Modelled from the spec: the flash utility's find-by-name (mtdutils.h is missing).\<close>
  "mtd_find_partition_by_name e nm w =
     (mtd_partition e nm w, record_call (MtdFindPartitionByName nm) w)"

definition mtd_mount_partition ::
  "env \<Rightarrow> partition \<Rightarrow> string option \<Rightarrow> string option \<Rightarrow> world \<Rightarrow> int \<times> world" where
  \<comment> \<open>Modelled from the spec: the flash utility's mount-partition (mtdutils.h is missing),
      a \<^verbatim>\<open>mount(2)\<close> of the partition's block device: 0 on success, and then the mount
      point is in the mount table. A NULL mount point is refused.\<close>
  "mtd_mount_partition e p target fs w =
     (case target of
        None \<Rightarrow> (- 1, record_call (MtdMountPartition p None fs) w)
      | Some mp \<Rightarrow>
          (let r = mtd_mount_result e p mp fs w in
           (r, record_call (MtdMountPartition p target fs)
                 (if r = 0 then w\<lparr>mounts := insert mp (mounts w)\<rparr> else w))))"

definition mtd_write_partition :: "env \<Rightarrow> partition \<Rightarrow> world \<Rightarrow> bool \<times> world" where
  \<comment> \<open>Modelled from the spec: the flash utility's open-for-write (mtdutils.h is missing);
      \<open>False\<close> is the NULL write context.\<close>
  "mtd_write_partition e p w = (mtd_open_ok e p w, record_call (MtdWritePartition p) w)"

definition mtd_erase_blocks :: "env \<Rightarrow> partition \<Rightarrow> world \<Rightarrow> int \<times> world" where
  \<comment> \<open>Modelled from the spec: the flash utility's erase of the whole partition
      (\<^verbatim>\<open>mtd_erase_blocks(write, -1)\<close>; mtdutils.h is missing); \<open>- 1\<close> on failure.\<close>
  "mtd_erase_blocks e p w = (mtd_erase_result e p w, record_call (MtdEraseBlocks p) w)"

definition mtd_write_close :: "env \<Rightarrow> partition \<Rightarrow> world \<Rightarrow> int \<times> world" where
  \<comment> \<open>Modelled from the spec: the flash utility's close (mtdutils.h is missing).\<close>
  "mtd_write_close e p w = (mtd_close_result e p w, record_call (MtdWriteClose p) w)"

definition mmc_scan_partitions :: "world \<Rightarrow> world" where
  \<comment> \<open>Modelled from the spec: the MMC utility's partition rescan (mmcutils.h is missing).\<close>
  "mmc_scan_partitions w = record_call MmcScanPartitions w"

definition mmc_find_partition_by_name ::
  "env \<Rightarrow> string option \<Rightarrow> world \<Rightarrow> partition option \<times> world" where
  \<comment> \<open>Modelled from the spec: the MMC utility's find-by-name (mmcutils.h is missing).\<close>
  "mmc_find_partition_by_name e nm w =
     (mmc_partition e nm w, record_call (MmcFindPartitionByName nm) w)"

definition mmc_format_ext3 :: "env \<Rightarrow> partition \<Rightarrow> world \<Rightarrow> int \<times> world" where
  \<comment> \<open>Modelled from the spec: the MMC utility's ext3 formatter (mmcutils.h is missing).\<close>
  "mmc_format_ext3 e p w = (mmc_format_result e p w, record_call (MmcFormatExt3 p) w)"

definition format_non_mtd_device :: "env \<Rightarrow> string \<Rightarrow> world \<Rightarrow> int \<times> world" where
  \<comment> \<open>Modelled from the spec: the last-resort formatting collaborator
      (extendedcommands.h is missing).\<close>
  "format_non_mtd_device e root w =
     (format_non_mtd_result e root w, record_call (FormatNonMtdDevice root) w)"

section \<open>Mounting and unmounting (roots.c)\<close>

text \<open>Diagnostics (\<^verbatim>\<open>LOGW\<close>, \<^verbatim>\<open>LOGE\<close>) change neither a result nor the world and are left
  out. Every operation takes the world and returns its result with the new world; an
  operation that can run into undefined behaviour returns a \<open>fault\<close> instead.\<close>

definition internal_root_mounted :: "env \<Rightarrow> RootInfo \<Rightarrow> world \<Rightarrow> int \<times> world" where
  "internal_root_mounted e info w =
     (case mount_point info of
        None \<Rightarrow> (- 1, w)
      | Some mp \<Rightarrow>
          (case scan_mounted_volumes e w of
             (ret, w1) \<Rightarrow>
               if ret < 0 then (ret, w1)
               else
                 (case find_mounted_volume_by_mount_point mp w1 of
                    Some volume \<Rightarrow> (0, w1)
                  | None \<Rightarrow> (- 1, w1))))"

definition is_root_path_mounted :: "env \<Rightarrow> RootInfo list \<Rightarrow> string \<Rightarrow> world \<Rightarrow> int \<times> world" where
  "is_root_path_mounted e roots root_path w =
     (case get_root_info_for_path roots root_path of
        None \<Rightarrow> (- 1, w)
      | Some i \<Rightarrow>
          (case internal_root_mounted e (roots ! i) w of
             (ret, w1) \<Rightarrow> (if 0 \<le> ret then 1 else 0, w1)))"

definition PATH_MAX :: nat where
  "PATH_MAX = 4096"

text \<open>\<^verbatim>\<open>mount_internal\<close>: the system call when the filesystem is not \<^verbatim>\<open>"auto"\<close> and has no
  options, the \<^verbatim>\<open>mount\<close> command otherwise. The command is printed into a buffer of
  \<open>PATH_MAX\<close> bytes.\<close>

definition mount_internal ::
  "env \<Rightarrow> string \<Rightarrow> string option \<Rightarrow> string \<Rightarrow> string option \<Rightarrow> world \<Rightarrow>
   fault + (int \<times> world)" where
  "mount_internal e dev mp fs fs_options w =
     (if strcmp fs ''auto'' \<noteq> 0 \<and> fs_options = None then Inr (sys_mount e dev mp fs w)
      else
        (let options = (case fs_options of
                          None \<Rightarrow> ''noatime,nodiratime,nodev''
                        | Some opts \<Rightarrow> opts);
             mount_cmd = MountCmd fs options dev mp in
         if PATH_MAX < length (cmd_text mount_cmd) + 1 then Inl OutOfBounds
         else Inr (sys_system e mount_cmd w)))"

definition ensure_root_path_mounted ::
  "env \<Rightarrow> RootInfo list \<Rightarrow> string \<Rightarrow> world \<Rightarrow> fault + (int \<times> world)" where
  "ensure_root_path_mounted e roots root_path w =
     (case get_root_info_for_path roots root_path of
        None \<Rightarrow> Inr (- 1, w)
      | Some i \<Rightarrow>
          (let info = roots ! i in
           case internal_root_mounted e info w of
             (ret, w1) \<Rightarrow>
               if 0 \<le> ret then Inr (0, w1)
               else if device info = Some G_mtd_device then
                 (case partition_name info of
                    None \<Rightarrow> Inr (- 1, w1)
                  | Some pn \<Rightarrow>
                      (case mtd_find_partition_by_name e (Some pn) (mtd_scan_partitions w1) of
                         (None, w2) \<Rightarrow> Inr (- 1, w2)
                       | (Some p, w2) \<Rightarrow>
                           Inr (mtd_mount_partition e p (mount_point info)
                                  (map_option cstring (filesystem info)) w2)))
               else
                 (case (device info, mount_point info, filesystem info) of
                    (Some dev, Some mp, Some fs) \<Rightarrow>
                      if fs = G_raw \<or> fs = G_package_file then Inr (- 1, w1)
                      else
                        and_then
                          (mount_internal e (cstring dev) (Some mp) (cstring fs)
                             (filesystem_options info) (sys_mkdir mp w1))
                          (\<lambda>(r, w2).
                             if r \<noteq> 0 then
                               (case device2 info of
                                  None \<Rightarrow> Inr (- 1, w2)
                                | Some dev2 \<Rightarrow>
                                    (case sys_mount e (cstring dev2) (Some mp) (cstring fs) w2 of
                                       (r2, w3) \<Rightarrow>
                                         if r2 \<noteq> 0 then Inr (- 1, w3) else Inr (0, w3)))
                             else Inr (0, w2))
                  | _ \<Rightarrow> Inr (- 1, w1))))"

definition ensure_root_path_unmounted ::
  "env \<Rightarrow> RootInfo list \<Rightarrow> string \<Rightarrow> world \<Rightarrow> int \<times> world" where
  "ensure_root_path_unmounted e roots root_path w =
     (case get_root_info_for_path roots root_path of
        None \<Rightarrow> (- 1, w)
      | Some i \<Rightarrow>
          (case mount_point (roots ! i) of
             None \<Rightarrow> (0, w)
           | Some mp \<Rightarrow>
               (case scan_mounted_volumes e w of
                  (ret, w1) \<Rightarrow>
                    if ret < 0 then (ret, w1)
                    else
                      (case find_mounted_volume_by_mount_point mp w1 of
                         None \<Rightarrow> (0, w1)
                       | Some volume \<Rightarrow> unmount_mounted_volume e volume w1))))"

section \<open>Filesystem type: override and detection (roots.c)\<close>

definition set_fs ::
  "RootInfo list \<Rightarrow> nat \<Rightarrow> string \<times> string \<Rightarrow> RootInfo list" where
  "set_fs roots i opt =
     roots[i := (roots ! i)\<lparr>filesystem := Some (Literal (fst opt)),
                            filesystem_options := Some (snd opt)\<rparr>]"

text \<open>The loop of \<^verbatim>\<open>set_type_internal_fs\<close> over \<^verbatim>\<open>g_fs_options\<close>; \<open>info\<close> is the result of
  the lookup, which the source writes through without a NULL check.\<close>

fun set_type_loop ::
  "RootInfo list \<Rightarrow> nat option \<Rightarrow> string \<Rightarrow> (string \<times> string) list \<Rightarrow>
   fault + (int \<times> RootInfo list)" where
  "set_type_loop roots info new_fs [] = Inr (- 1, roots)"
| "set_type_loop roots info new_fs (opt # rest) =
     (if strcmp new_fs (fst opt) = 0 then
        (case info of
           None \<Rightarrow> Inl NullDereference
         | Some i \<Rightarrow> Inr (0, set_fs roots i opt))
      else set_type_loop roots info new_fs rest)"

definition set_type_internal_fs ::
  "RootInfo list \<Rightarrow> string \<Rightarrow> string \<Rightarrow> fault + (int \<times> RootInfo list)" where
  "set_type_internal_fs roots root_path new_fs =
     set_type_loop roots (get_root_info_for_path roots root_path) new_fs g_fs_options"

text \<open>The loop of \<^verbatim>\<open>detect_internal_fs\<close> over \<^verbatim>\<open>g_fs_options\<close>: entry \<open>i\<close> of the table is
  probed on its device \<open>dev\<close>. The result of the unmount after a successful trial mount
  is dropped, as in the source.\<close>

fun detect_loop ::
  "env \<Rightarrow> RootInfo list \<Rightarrow> string \<Rightarrow> nat \<Rightarrow> string \<Rightarrow> (string \<times> string) list \<Rightarrow> world \<Rightarrow>
   fault + (int \<times> RootInfo list \<times> world)" where
  "detect_loop e roots root_path i dev [] w = Inr (- 1, roots, w)"
| "detect_loop e roots root_path i dev (opt # rest) w =
     and_then
       (mount_internal e dev (mount_point (roots ! i)) (fst opt) (Some (snd opt)) w)
       (\<lambda>(r, w1).
          if r = 0 then
            (let roots' = set_fs roots i opt in
             case ensure_root_path_unmounted e roots' root_path w1 of
               (ignored, w2) \<Rightarrow> Inr (0, roots', w2))
          else detect_loop e roots root_path i dev rest w1)"

definition detect_internal_fs ::
  "env \<Rightarrow> RootInfo list \<Rightarrow> string \<Rightarrow> world \<Rightarrow> fault + (int \<times> RootInfo list \<times> world)" where
  "detect_internal_fs e roots root_path w =
     (case get_root_info_for_path roots root_path of
        None \<Rightarrow> Inr (- 1, roots, w)
      | Some i \<Rightarrow>
          (case device (roots ! i) of
             None \<Rightarrow> Inr (- 1, roots, w)
           | Some dev \<Rightarrow>
               (case ensure_root_path_unmounted e roots root_path w of
                  (ret, w1) \<Rightarrow>
                    if ret < 0 then Inr (ret, roots, w1)
                    else detect_loop e roots root_path i (cstring dev) g_fs_options w1)))"

section \<open>Formatting (roots.c)\<close>

text \<open>\<^verbatim>\<open>format_root_device\<close> in the order of the source: the flash branch, the MMC branch
  and the generic branches (rfs, ext, and the last resort). A branch that does not return
  falls through to the next one. \<^verbatim>\<open>strcmp\<close> on a NULL filesystem is a read through NULL;
  the two command lines are built in buffers of 32 and of 96 bytes.\<close>

definition format_generic ::
  "env \<Rightarrow> RootInfo \<Rightarrow> cptr \<Rightarrow> string \<Rightarrow> world \<Rightarrow> fault + (int \<times> world)" where
  "format_generic e info dev root w =
     (case filesystem info of
        None \<Rightarrow> Inl NullDereference
      | Some f \<Rightarrow>
          if strcmp (cstring f) ''rfs'' = 0 then
            (let stl_format = StlFormat (cstring dev) in
             if 32 < length (cmd_text stl_format) + 1 then Inl OutOfBounds
             else
               (case sys_system e stl_format w of
                  (r, w1) \<Rightarrow> if r \<noteq> 0 then Inr (- 1, w1) else Inr (0, w1)))
          else if strncmp (cstring f) ''ext'' 3 = 0 then
            (let ext_format = Mke2fs (cstring f) (cstring dev) in
             if 96 < length (cmd_text ext_format) + 1 then Inl OutOfBounds
             else
               (case sys_system e ext_format w of
                  (r, w1) \<Rightarrow> if r \<noteq> 0 then Inr (- 1, w1) else Inr (0, w1)))
          else Inr (format_non_mtd_device e root w))"

definition format_mmc ::
  "env \<Rightarrow> RootInfo \<Rightarrow> cptr \<Rightarrow> string \<Rightarrow> world \<Rightarrow> fault + (int \<times> world)" where
  "format_mmc e info dev root w =
     (if dev = G_mmc_device then
        (case mmc_find_partition_by_name e (partition_name info) (mmc_scan_partitions w) of
           (None, w1) \<Rightarrow> Inr (- 1, w1)
         | (Some p, w1) \<Rightarrow>
             (case filesystem info of
                None \<Rightarrow> Inl NullDereference
              | Some f \<Rightarrow>
                  if strcmp (cstring f) ''ext3'' = 0 then
                    (case mmc_format_ext3 e p w1 of
                       (ignored, w2) \<Rightarrow> format_generic e info dev root w2)
                  else format_generic e info dev root w1))
      else format_generic e info dev root w)"

definition format_mtd ::
  "env \<Rightarrow> RootInfo \<Rightarrow> cptr \<Rightarrow> string \<Rightarrow> world \<Rightarrow> fault + (int \<times> world)" where
  "format_mtd e info dev root w =
     (if dev = G_mtd_device then
        (case mtd_find_partition_by_name e (partition_name info) (mtd_scan_partitions w) of
           (None, w1) \<Rightarrow> Inr (- 1, w1)
         | (Some p, w1) \<Rightarrow>
             (case filesystem info of
                None \<Rightarrow> Inl NullDereference
              | Some f \<Rightarrow>
                  if f = G_raw \<or> strcmp (cstring f) ''yaffs2'' = 0 then
                    (case mtd_write_partition e p w1 of
                       (False, w2) \<Rightarrow> Inr (- 1, w2)
                     | (True, w2) \<Rightarrow>
                         (case mtd_erase_blocks e p w2 of
                            (erased, w3) \<Rightarrow>
                              if erased = - 1 then
                                (case mtd_write_close e p w3 of
                                   (ignored, w4) \<Rightarrow> Inr (- 1, w4))
                              else
                                (case mtd_write_close e p w3 of
                                   (closed, w4) \<Rightarrow>
                                     if closed \<noteq> 0 then Inr (- 1, w4) else Inr (0, w4))))
                  else format_mmc e info dev root w1))
      else format_mmc e info dev root w)"

text \<open>The loop at the head of the source only feeds a check that is commented out.\<close>

definition format_root_device ::
  "env \<Rightarrow> RootInfo list \<Rightarrow> string \<Rightarrow> world \<Rightarrow> fault + (int \<times> world)" where
  "format_root_device e roots root w =
     (case get_root_info_for_path roots root of
        None \<Rightarrow> Inr (- 1, w)
      | Some i \<Rightarrow>
          (let info = roots ! i in
           case device info of
             None \<Rightarrow> Inr (- 1, w)
           | Some dev \<Rightarrow>
               (case mount_point info of
                  None \<Rightarrow> format_mtd e info dev root w
                | Some mp \<Rightarrow>
                    (case ensure_root_path_unmounted e roots root w of
                       (ret, w1) \<Rightarrow>
                         if ret < 0 then Inr (ret, w1)
                         else format_mtd e info dev root w1))))"

section \<open>Sample worlds and environments\<close>

text \<open>An environment in which every call succeeds and every partition is found, and a
  world with nothing mounted and no call made.\<close>

definition calm_env :: env where
  "calm_env =
     \<lparr>scan_result = (\<lambda>w. 0),
      unmount_result = (\<lambda>v w. 0),
      mount_result = (\<lambda>dev mp fs w. 0),
      system_result = (\<lambda>cmd w. 0),
      mtd_partition = (\<lambda>nm w. Some 0),
      mtd_mount_result = (\<lambda>p mp fs w. 0),
      mtd_open_ok = (\<lambda>p w. True),
      mtd_erase_result = (\<lambda>p w. 0),
      mtd_close_result = (\<lambda>p w. 0),
      mmc_partition = (\<lambda>nm w. Some 0),
      mmc_format_result = (\<lambda>p w. 0),
      format_non_mtd_result = (\<lambda>root w. 0)\<rparr>"

definition idle_world :: world where
  "idle_world = \<lparr>mounts = {}, trace = []\<rparr>"

section \<open>Facts about the string functions and the lookup\<close>

lemma strcmp_eq_iff: "strcmp s1 s2 = 0 \<longleftrightarrow> s1 = s2"
  by (induction s1 s2 rule: strcmp.induct) simp_all

lemma scan_roots_bound: "scan_roots roots root_path len = Some i \<Longrightarrow> i < length roots"
  by (induction roots arbitrary: i) (auto split: if_splits)

lemma get_root_info_for_path_bound:
  "get_root_info_for_path roots root_path = Some i \<Longrightarrow> i < length roots"
  by (auto simp: get_root_info_for_path_def Let_def scan_roots_bound split: if_splits)

lemma set_type_loop_map_of:
  "set_type_loop roots info new_fs opts =
     (case map_of opts new_fs of
        None \<Rightarrow> Inr (- 1, roots)
      | Some fo \<Rightarrow>
          (case info of
             None \<Rightarrow> Inl NullDereference
           | Some i \<Rightarrow> Inr (0, set_fs roots i (new_fs, fo))))"
  by (induction opts) (auto simp: strcmp_eq_iff split: option.splits)

lemma translate_package_root_path_under_root:
  assumes "get_root_info_for_path roots (name (roots ! i) @ rel) = Some i"
    and "filesystem (roots ! i) = Some G_package_file"
    and "length rel < out_buf_len" and "out_buf_len \<le> length out_buf"
  shows "translate_package_root_path roots st (name (roots ! i) @ rel) out_buf out_buf_len =
           Inr (Some (rel @ CHR 0x00 # drop (length rel + 1) out_buf, g_package st))"
  using assms by (simp add: translate_package_root_path_def Let_def memcpy_def and_then_def)

lemmas table_simps = get_root_info_for_path_def g_roots_def mk_root_def Let_def

lemma memcpy_after:
  "length src \<le> length post \<Longrightarrow> n = length pre \<Longrightarrow>
   memcpy (pre @ post) n src = Inr (pre @ src @ drop (length src) post)"
  by (simp add: memcpy_def)

lemma store_after:
  "post \<noteq> [] \<Longrightarrow> n = length pre \<Longrightarrow> store (pre @ post) n c = Inr (pre @ c # drop 1 post)"
  by (cases post) (simp_all add: store_def list_update_append)

lemma glue_path:
  assumes mp: "mp \<noteq> []" and fits: "length mp + 1 + length rest + 1 \<le> length out_buf"
  shows "and_then (memcpy out_buf 0 mp) (\<lambda>b1.
           if length mp = 0 \<or> length b1 < length mp then Inl OutOfBounds
           else
             and_then
               (if b1 ! (length mp - 1) = CHR ''/'' then Inr (b1, length mp)
                else and_then (store b1 (length mp) CHR ''/'')
                       (\<lambda>b2. Inr (b2, length mp + 1)))
               (\<lambda>(b2, mp_len').
                  and_then (memcpy b2 mp_len' rest)
                    (\<lambda>b3. and_then (store b3 (mp_len' + length rest) (CHR 0x00))
                            (\<lambda>b4. Inr (Some b4))))) =
         Inr (Some (mp @ (if last mp = CHR ''/'' then [] else ''/'') @ rest @
                    CHR 0x00 # drop (length (mp @ (if last mp = CHR ''/'' then [] else ''/'') @ rest) + 1) out_buf))"
proof -
  let ?sep = "if last mp = CHR ''/'' then [] else ''/''"
  have b1: "memcpy out_buf 0 mp = Inr (mp @ drop (length mp) out_buf)"
    using memcpy_after [of mp out_buf 0 "[]"] fits by simp
  have lastc: "(mp @ drop (length mp) out_buf) ! (length mp - 1) = last mp"
    using mp by (simp add: nth_append last_conv_nth)
  show ?thesis
  proof (cases "last mp = CHR ''/''")
    case True
    have b3: "memcpy (mp @ drop (length mp) out_buf) (length mp) rest =
                Inr (mp @ rest @ drop (length rest) (drop (length mp) out_buf))"
      using fits by (intro memcpy_after) simp_all
    have b4: "store ((mp @ rest) @ drop (length rest) (drop (length mp) out_buf))
                (length mp + length rest) (CHR 0x00) =
              Inr ((mp @ rest) @ CHR 0x00 # drop 1 (drop (length rest) (drop (length mp) out_buf)))"
      using fits by (intro store_after) simp_all
    show ?thesis
      using True mp b1 lastc b3 b4 by (simp add: and_then_def add.commute add.left_commute)
  next
    case False
    have b2: "store (mp @ drop (length mp) out_buf) (length mp) CHR ''/'' =
                Inr (mp @ CHR ''/'' # drop 1 (drop (length mp) out_buf))"
      using fits by (intro store_after) simp_all
    have b3: "memcpy ((mp @ ''/'') @ drop 1 (drop (length mp) out_buf)) (length mp + 1) rest =
                Inr ((mp @ ''/'') @ rest @ drop (length rest) (drop 1 (drop (length mp) out_buf)))"
      using fits by (intro memcpy_after) simp_all
    have b4: "store ((mp @ ''/'' @ rest) @ drop (length rest) (drop 1 (drop (length mp) out_buf)))
                (length mp + 1 + length rest) (CHR 0x00) =
              Inr ((mp @ ''/'' @ rest) @ CHR 0x00 #
                   drop 1 (drop (length rest) (drop 1 (drop (length mp) out_buf))))"
      using fits by (intro store_after) simp_all
    show ?thesis
      using False mp b1 lastc b2 b3 b4 by (simp add: and_then_def add.commute add.left_commute)
  qed
qed


lemma translate_root_path_general:
  assumes lookup: "get_root_info_for_path roots (name (roots ! i) @ rel) = Some i"
    and mp: "mount_point (roots ! i) = Some mp" "mp \<noteq> []"
    and cap: "out_buf_len \<le> length out_buf"
  shows "translate_root_path roots (name (roots ! i) @ rel) out_buf out_buf_len =
     (let rest = dropWhile (\<lambda>c. c = CHR ''/'') rel;
          sep = (if last mp = CHR ''/'' then [] else ''/'') in
      if length mp + 1 + length rest + 1 \<le> out_buf_len
      then Inr (Some (mp @ sep @ rest @
                      CHR 0x00 # drop (length (mp @ sep @ rest) + 1) out_buf))
      else Inr None)"
proof (cases "length mp + 1 + length (dropWhile (\<lambda>c. c = CHR ''/'') rel) + 1 \<le> out_buf_len")
  case True
  with cap have fits:
    "length mp + 1 + length (dropWhile (\<lambda>c. c = CHR ''/'') rel) + 1 \<le> length out_buf"
    by simp
  show ?thesis
    using True lookup mp glue_path [OF mp(2) fits]
    by (simp add: translate_root_path_def Let_def)
next
  case False
  then show ?thesis
    using lookup mp by (simp add: translate_root_path_def Let_def)
qed

lemma scan_roots_names:
  "map name roots = map name roots' \<Longrightarrow>
   scan_roots roots root_path len = scan_roots roots' root_path len"
proof (induction roots arbitrary: roots')
  case Nil
  then show ?case by simp
next
  case (Cons info rest)
  then obtain info' rest' where "roots' = info' # rest'" by (cases roots') auto
  with Cons show ?case by simp
qed

lemma get_root_info_for_path_names:
  assumes "map name roots = map name roots'"
  shows "get_root_info_for_path roots root_path = get_root_info_for_path roots' root_path"
  by (simp add: get_root_info_for_path_def Let_def scan_roots_names [OF assms])

lemma g_roots_labels_resolve:
  "\<forall>i < length g_roots. get_root_info_for_path g_roots (name (g_roots ! i)) = Some i"
  by (simp add: table_simps All_less_Suc eval_nat_numeral)

lemma g_roots_mount_points_nonempty:
  "\<forall>i < length g_roots. mount_point (g_roots ! i) \<noteq> Some []"
  by (simp add: table_simps All_less_Suc eval_nat_numeral)

section \<open>The package binding\<close>

text \<open>
  C1 (as amended). Let \<open>register_package_root\<close> with a non-null archive \<open>a\<close> succeed, and
  let a call with a null archive follow it. For a path under the package root, whose part
  after the label fits the destination with its terminator:
  after the first call \<open>translate_package_root_path\<close> writes the part after the label and
  hands out \<open>a\<close>; after the second call it still succeeds and writes the same text, and the
  archive it hands out is NULL. The source has no check of \<^verbatim>\<open>g_package\<close>, so a missing
  binding is never reported as a failure.
\<close>

theorem translate_package_follows_binding:
  assumes lookup: "get_root_info_for_path roots (name (roots ! i) @ rel) = Some i"
    and pkg: "filesystem (roots ! i) = Some G_package_file"
    and cap: "length rel < out_buf_len" "out_buf_len \<le> length out_buf"
    and bind: "register_package_root ok (Some a) (Some p) st = Inr (0, st_b)"
    and unbind: "register_package_root ok' None p' st_b = Inr (r, st_u)"
  shows "translate_package_root_path roots st_b (name (roots ! i) @ rel) out_buf out_buf_len =
           Inr (Some (rel @ CHR 0x00 # drop (length rel + 1) out_buf, Some a))
         \<and> r = 0
         \<and> translate_package_root_path roots st_u (name (roots ! i) @ rel) out_buf out_buf_len =
           Inr (Some (rel @ CHR 0x00 # drop (length rel + 1) out_buf, None))"
proof -
  from bind have "g_package st_b = Some a"
    by (auto simp: register_package_root_def strdup_def split: if_splits)
  moreover from unbind have "r = 0" "g_package st_u = None"
    by (auto simp: register_package_root_def)
  ultimately show ?thesis
    using translate_package_root_path_under_root [OF lookup pkg cap] by simp
qed

theorem translate_package_follows_binding_witness:
  "translate_package_root_path g_roots
     \<lparr>g_package = Some 7, g_package_path = Some ''foo'', freed = []\<rparr>
     ''PACKAGE:bar'' ''xxxx'' 4 = Inr (Some (''bar'' @ [CHR 0x00], Some 7))
   \<and> translate_package_root_path g_roots
     \<lparr>g_package = None, g_package_path = None, freed = [''foo'']\<rparr>
     ''PACKAGE:bar'' ''xxxx'' 4 = Inr (Some (''bar'' @ [CHR 0x00], None))"
  using translate_package_follows_binding [where roots = g_roots and i = 4 and rel = "''bar''"
      and out_buf = "''xxxx''" and out_buf_len = 4 and ok = True and a = 7 and p = "''foo''"
      and st = "\<lparr>g_package = None, g_package_path = None, freed = []\<rparr>"
      and st_b = "\<lparr>g_package = Some 7, g_package_path = Some ''foo'', freed = []\<rparr>"
      and ok' = True and p' = None and r = 0
      and st_u = "\<lparr>g_package = None, g_package_path = None, freed = [''foo'']\<rparr>"]
  by (simp add: table_simps register_package_root_def strdup_def)

text \<open>The claim as stated fails: with the archive 7 bound and then unbound,
  \<^verbatim>\<open>translate_package_root_path("PACKAGE:bar", buf, 4, &pkg)\<close> does not return NULL; it
  returns the buffer, holding \<^verbatim>\<open>"bar"\<close>, and stores NULL in \<^verbatim>\<open>pkg\<close>.\<close>

theorem unbound_package_translate_counterexample:
  "register_package_root True None None
     \<lparr>g_package = Some 7, g_package_path = Some ''foo'', freed = []\<rparr> =
     Inr (0, \<lparr>g_package = None, g_package_path = None, freed = [''foo'']\<rparr>)
   \<and> translate_package_root_path g_roots
     \<lparr>g_package = None, g_package_path = None, freed = [''foo'']\<rparr>
     ''PACKAGE:bar'' ''xxxx'' 4 = Inr (Some (''bar'' @ [CHR 0x00], None))"
  by (simp add: translate_package_root_path_def table_simps memcpy_def and_then_def
      register_package_root_def)

text \<open>
  C10. When the duplication of the package path fails, \<open>register_package_root\<close> with a
  non-null archive returns \<open>- 1\<close> and leaves the bound archive, the owned path and the
  freed strings as they were.
\<close>

theorem register_package_root_atomic:
  "register_package_root False (Some a) (Some p) st = Inr (- 1, st)"
  by (simp add: register_package_root_def strdup_def)

section \<open>The filesystem override\<close>

text \<open>
  C9 (as amended). \<open>set_type_internal_fs\<close> never checks the lookup. When \<open>new_fs\<close> is the
  filesystem of no entry of \<^verbatim>\<open>g_fs_options\<close> it returns \<open>- 1\<close> and leaves the table
  unchanged, whether the label resolves or not. When \<open>new_fs\<close> matches an entry, the
  result of the lookup is written through: a path with no separator or with an unknown
  label is a write through NULL, and for a path that resolves the operation returns 0
  with the filesystem and the options of the matching entry copied into the root's
  entry.
\<close>

theorem set_type_internal_fs_result:
  "set_type_internal_fs roots root_path new_fs =
     (case map_of g_fs_options new_fs of
        None \<Rightarrow> Inr (- 1, roots)
      | Some fs_options \<Rightarrow>
          (case get_root_info_for_path roots root_path of
             None \<Rightarrow> Inl NullDereference
           | Some i \<Rightarrow>
               Inr (0, roots[i := (roots ! i)\<lparr>filesystem := Some (Literal new_fs),
                                             filesystem_options := Some fs_options\<rparr>])))"
  by (simp add: set_type_internal_fs_def set_type_loop_map_of set_fs_def split: option.splits)

text \<open>The claim as stated fails: \<^verbatim>\<open>"NOLABEL"\<close> has no separator, and
  \<^verbatim>\<open>set_type_internal_fs("NOLABEL", "vfat")\<close> returns \<open>- 1\<close> without touching the result
  of the lookup.\<close>

theorem set_type_internal_fs_counterexample:
  "get_root_info_for_path g_roots ''NOLABEL'' = None
   \<and> set_type_internal_fs g_roots ''NOLABEL'' ''vfat'' = Inr (- 1, g_roots)"
  by (simp add: set_type_internal_fs_def g_fs_options_def get_root_info_for_path_def)

section \<open>Path translation\<close>

text \<open>
  C5 (as amended). For a path made of a label that resolves to an entry with a (non-empty)
  mount point, followed by a relative part, and a destination of at least \<open>out_buf_len\<close>
  bytes: \<open>translate_root_path\<close> succeeds exactly when \<open>out_buf_len\<close> can hold the mount
  point, one separator, the remainder (the relative part without its leading separators)
  and the terminator; the separator is counted even when none is inserted. On success the
  destination holds the mount point, a separator only if the mount point does not already
  end with one, the remainder and the terminator, and the bytes after the terminator are
  untouched; otherwise NULL is returned and nothing has been written. No write leaves the
  destination.
\<close>

theorem translate_root_path_glues:
  assumes lookup: "get_root_info_for_path roots (name (roots ! i) @ rel) = Some i"
    and mp: "mount_point (roots ! i) = Some mp" "mp \<noteq> []"
    and cap: "out_buf_len \<le> length out_buf"
  shows "translate_root_path roots (name (roots ! i) @ rel) out_buf out_buf_len =
     (let rest = dropWhile (\<lambda>c. c = CHR ''/'') rel;
          sep = (if last mp = CHR ''/'' then [] else ''/'') in
      if length mp + 1 + length rest + 1 \<le> out_buf_len
      then Inr (Some (mp @ sep @ rest @
                      CHR 0x00 # drop (length (mp @ sep @ rest) + 1) out_buf))
      else Inr None)"
  using assms by (rule translate_root_path_general)

theorem translate_root_path_glues_witness:
  "translate_root_path g_roots ''SYSTEM:lib'' ''0123456789abcdef'' 12 =
     Inr (Some (''/system/lib'' @ CHR 0x00 # ''cdef''))
   \<and> translate_root_path g_roots ''SYSTEM:lib'' ''0123456789abcdef'' 11 = Inr None"
proof -
  have nm: "name (g_roots ! 3) = ''SYSTEM:''"
    by (simp add: g_roots_def mk_root_def)
  have lookup: "get_root_info_for_path g_roots (name (g_roots ! 3) @ ''lib'') = Some 3"
    by (simp add: table_simps)
  have mp: "mount_point (g_roots ! 3) = Some ''/system''" "''/system'' \<noteq> []"
    by (simp_all add: g_roots_def mk_root_def)
  show ?thesis
    using translate_root_path_glues [OF lookup mp, of 12 "''0123456789abcdef''"]
      translate_root_path_glues [OF lookup mp, of 11 "''0123456789abcdef''"]
    by (simp add: nm)
qed

text \<open>The claim as stated fails: the mount point of \<^verbatim>\<open>RECOVERY:\<close> is \<^verbatim>\<open>"/"\<close>, and
  \<^verbatim>\<open>translate_root_path("RECOVERY:x", buf, 4)\<close> writes \<^verbatim>\<open>"/x"\<close>, which is not the mount
  point followed by a separator and the remainder (\<^verbatim>\<open>"//x"\<close>).\<close>

theorem translate_root_path_separator_counterexample:
  "get_root_info_for_path g_roots ''RECOVERY:x'' = Some 6
   \<and> mount_point (g_roots ! 6) = Some ''/''
   \<and> translate_root_path g_roots ''RECOVERY:x'' ''0123'' 4 = Inr (Some (''/x'' @ CHR 0x00 # ''3''))"
  by (simp add: translate_root_path_def table_simps memcpy_def store_def and_then_def)

text \<open>
  C8. Take any table with the labels and the mount points of \<open>g_roots\<close> (the other fields
  may have been overwritten), and any of its labels whose entry has a mount point.
  \<open>translate_root_path\<close> of the label alone, into a destination that can hold the mount
  point, a separator and the terminator, yields the mount point itself when it ends with
  a separator, and the mount point followed by one separator otherwise.
\<close>

theorem translate_label_alone:
  assumes names: "map name roots = map name g_roots"
    and mps: "map mount_point roots = map mount_point g_roots"
    and i: "i < length g_roots"
    and mp: "mount_point (g_roots ! i) = Some mp"
    and cap: "length mp + 2 \<le> out_buf_len" "out_buf_len \<le> length out_buf"
  shows "translate_root_path roots (name (g_roots ! i)) out_buf out_buf_len =
           Inr (Some ((if last mp = CHR ''/'' then mp else mp @ ''/'') @
                      CHR 0x00 # drop (length (if last mp = CHR ''/'' then mp else mp @ ''/'') + 1) out_buf))"
proof -
  have len: "length roots = length g_roots"
    using names by (metis length_map)
  have nm: "name (roots ! i) = name (g_roots ! i)"
    using names i len by (metis nth_map)
  have mp': "mount_point (roots ! i) = Some mp"
    using mps i len mp by (metis nth_map)
  have "get_root_info_for_path g_roots (name (g_roots ! i)) = Some i"
    using g_roots_labels_resolve i by blast
  then have lookup: "get_root_info_for_path roots (name (roots ! i) @ []) = Some i"
    using get_root_info_for_path_names [OF names] nm by simp
  have ne: "mp \<noteq> []"
    using g_roots_mount_points_nonempty i mp by blast
  show ?thesis
    using translate_root_path_general [OF lookup mp' ne cap(2)] cap(1) nm
    by (simp add: Let_def)
qed

theorem translate_label_alone_witness:
  "translate_root_path g_roots ''SYSTEM:'' ''0123456789'' 9 =
     Inr (Some (''/system/'' @ CHR 0x00 # ''9''))
   \<and> translate_root_path g_roots ''RECOVERY:'' ''0123456789'' 9 =
     Inr (Some (''/'' @ CHR 0x00 # ''23456789''))"
proof -
  have nm: "name (g_roots ! 3) = ''SYSTEM:''" "name (g_roots ! 6) = ''RECOVERY:''"
    by (simp_all add: g_roots_def mk_root_def)
  have mp: "mount_point (g_roots ! 3) = Some ''/system''" "mount_point (g_roots ! 6) = Some ''/''"
    by (simp_all add: g_roots_def mk_root_def)
  have i: "3 < length g_roots" "6 < length g_roots"
    by (simp_all add: g_roots_def)
  show ?thesis
    using translate_label_alone [OF refl refl i(1) mp(1), of 9 "''0123456789''"]
      translate_label_alone [OF refl refl i(2) mp(2), of 9 "''0123456789''"]
    by (simp add: nm)
qed

section \<open>Mounting\<close>

lemmas collab_defs = scan_mounted_volumes_def find_mounted_volume_by_mount_point_def
  unmount_mounted_volume_def sys_mount_def sys_system_def sys_mkdir_def
  mtd_scan_partitions_def mtd_find_partition_by_name_def mtd_mount_partition_def
  mtd_write_partition_def mtd_erase_blocks_def mtd_write_close_def
  mmc_scan_partitions_def mmc_find_partition_by_name_def mmc_format_ext3_def
  format_non_mtd_device_def record_call_def

lemma mount_internal_success:
  "mount_internal e dev (Some mp) fs fo w = Inr (0, w1) \<Longrightarrow> mp \<in> mounts w1"
  by (auto simp: mount_internal_def collab_defs Let_def split: if_splits)

lemma mtd_mount_partition_success:
  "mtd_mount_partition e p target fs w = (0, w1) \<Longrightarrow> \<exists>mp. target = Some mp \<and> mp \<in> mounts w1"
  by (auto simp: collab_defs Let_def split: option.splits if_splits)

lemma sys_mount_success:
  "sys_mount e dev (Some mp) fs w = (0, w1) \<Longrightarrow> mp \<in> mounts w1"
  by (auto simp: collab_defs Let_def split: if_splits)

lemma internal_root_mounted_success:
  "internal_root_mounted e info w = (ret, w1) \<Longrightarrow> 0 \<le> ret \<Longrightarrow>
   \<exists>mp. mount_point info = Some mp \<and> mp \<in> mounts w1"
  by (auto simp: internal_root_mounted_def collab_defs split: option.splits if_splits)

lemma ensure_root_path_mounted_success:
  assumes "ensure_root_path_mounted e roots root_path w = Inr (0, w1)"
  shows "\<exists>i mp. get_root_info_for_path roots root_path = Some i \<and>
           mount_point (roots ! i) = Some mp \<and> mp \<in> mounts w1"
proof -
  from assms obtain i where i: "get_root_info_for_path roots root_path = Some i"
    by (auto simp: ensure_root_path_mounted_def split: option.splits)
  obtain ret w0 where irm: "internal_root_mounted e (roots ! i) w = (ret, w0)"
    by (cases "internal_root_mounted e (roots ! i) w")
  show ?thesis
  proof (cases "0 \<le> ret")
    case True
    with assms i irm have "w1 = w0"
      by (simp add: ensure_root_path_mounted_def Let_def)
    with internal_root_mounted_success [OF irm True] i show ?thesis by auto
  next
    case False
    show ?thesis
    proof (cases "device (roots ! i) = Some G_mtd_device")
      case True
      with assms i irm False obtain p w2 where
        "mtd_mount_partition e p (mount_point (roots ! i))
           (map_option cstring (filesystem (roots ! i))) w2 = (0, w1)"
        by (auto simp: ensure_root_path_mounted_def Let_def split: option.splits prod.splits)
      from mtd_mount_partition_success [OF this] i show ?thesis by auto
    next
      case mtd: False
      with assms i irm False show ?thesis
        by (auto simp: ensure_root_path_mounted_def Let_def and_then_def
            split: option.splits prod.splits sum.splits if_splits
            dest: mount_internal_success sys_mount_success)
    qed
  qed
qed

text \<open>
  C7 (as amended). After a call of \<open>ensure_root_path_mounted\<close> that returned 0, an
  immediate second call with the same path returns 0 and makes no call but the rescan of
  the mount table, provided that this rescan succeeds. (When the rescan fails the source
  takes the volume for unmounted and mounts again.)
\<close>

theorem ensure_root_path_mounted_twice:
  assumes first: "ensure_root_path_mounted e roots root_path w = Inr (0, w1)"
    and scan: "0 \<le> scan_result e w1"
  shows "ensure_root_path_mounted e roots root_path w1 =
           Inr (0, record_call ScanMountedVolumes w1)"
proof -
  from ensure_root_path_mounted_success [OF first] obtain i mp where
    "get_root_info_for_path roots root_path = Some i" "mount_point (roots ! i) = Some mp"
    "mp \<in> mounts w1"
    by blast
  with scan show ?thesis
    by (simp add: ensure_root_path_mounted_def internal_root_mounted_def Let_def
        scan_mounted_volumes_def find_mounted_volume_by_mount_point_def record_call_def)
qed

theorem ensure_root_path_mounted_twice_witness:
  "ensure_root_path_mounted calm_env g_roots ''SDCARD:''
     \<lparr>mounts = {''/sdcard''},
      trace = [ScanMountedVolumes, Mkdir ''/sdcard'',
               Mount ''/dev/block/mmcblk1p1'' (Some ''/sdcard'') ''vfat'']\<rparr> =
   Inr (0, \<lparr>mounts = {''/sdcard''},
            trace = [ScanMountedVolumes, Mkdir ''/sdcard'',
                     Mount ''/dev/block/mmcblk1p1'' (Some ''/sdcard'') ''vfat'',
                     ScanMountedVolumes]\<rparr>)"
proof -
  have first: "ensure_root_path_mounted calm_env g_roots ''SDCARD:'' idle_world =
      Inr (0, \<lparr>mounts = {''/sdcard''},
               trace = [ScanMountedVolumes, Mkdir ''/sdcard'',
                        Mount ''/dev/block/mmcblk1p1'' (Some ''/sdcard'') ''vfat'']\<rparr>)"
    by (simp add: ensure_root_path_mounted_def internal_root_mounted_def table_simps
        collab_defs calm_env_def idle_world_def mount_internal_def and_then_def)
  show ?thesis
    using ensure_root_path_mounted_twice [OF first] by (simp add: calm_env_def record_call_def)
qed

text \<open>The claim as stated fails when the mount table cannot be read on the second call:
  \<^verbatim>\<open>internal_root_mounted\<close> passes the negative result of the scan on, the caller takes
  it for "not mounted", and \<^verbatim>\<open>SDCARD:\<close> is mounted again (here both mounts are refused,
  and the second call returns \<open>- 1\<close>).\<close>

theorem ensure_root_path_mounted_twice_counterexample:
  "ensure_root_path_mounted
     (calm_env\<lparr>scan_result := (\<lambda>w. if ScanMountedVolumes \<in> set (trace w) then - 1 else 0),
                mount_result := (\<lambda>dev mp fs w. if mp \<in> mounts w then - 1 else 0)\<rparr>)
     g_roots ''SDCARD:'' idle_world =
   Inr (0, \<lparr>mounts = {''/sdcard''},
            trace = [ScanMountedVolumes, Mkdir ''/sdcard'',
                     Mount ''/dev/block/mmcblk1p1'' (Some ''/sdcard'') ''vfat'']\<rparr>)
   \<and> ensure_root_path_mounted
     (calm_env\<lparr>scan_result := (\<lambda>w. if ScanMountedVolumes \<in> set (trace w) then - 1 else 0),
                mount_result := (\<lambda>dev mp fs w. if mp \<in> mounts w then - 1 else 0)\<rparr>)
     g_roots ''SDCARD:''
     \<lparr>mounts = {''/sdcard''},
      trace = [ScanMountedVolumes, Mkdir ''/sdcard'',
               Mount ''/dev/block/mmcblk1p1'' (Some ''/sdcard'') ''vfat'']\<rparr> =
   Inr (- 1, \<lparr>mounts = {''/sdcard''},
              trace = [ScanMountedVolumes, Mkdir ''/sdcard'',
                       Mount ''/dev/block/mmcblk1p1'' (Some ''/sdcard'') ''vfat'',
                       ScanMountedVolumes, Mkdir ''/sdcard'',
                       Mount ''/dev/block/mmcblk1p1'' (Some ''/sdcard'') ''vfat'',
                       Mount ''@'' (Some ''/sdcard'') ''vfat'']\<rparr>)"
  by (simp add: ensure_root_path_mounted_def internal_root_mounted_def table_simps
      collab_defs calm_env_def idle_world_def mount_internal_def and_then_def)

text \<open>
  C3. The claim: an entry without a mount point makes \<open>ensure_root_path_mounted\<close> fail
  before any mount is attempted, also for the entries on flash. The source fails to do so
  for \<^verbatim>\<open>BOOT:\<close>: \<^verbatim>\<open>internal_root_mounted\<close> returns \<open>- 1\<close> for the missing mount point,
  the flash branch runs without the check of the mount point that the generic branch has,
  and with the partition found \<^verbatim>\<open>mtd_mount_partition\<close> is called with a NULL mount point.
\<close>

theorem ensure_root_path_mounted_boot:
  "ensure_root_path_mounted calm_env g_roots ''BOOT:'' idle_world =
     Inr (- 1, \<lparr>mounts = {}, trace = [MtdScanPartitions, MtdFindPartitionByName (Some ''boot''),
                                        MtdMountPartition 0 None (Some ''@'')]\<rparr>)"
  by (simp add: ensure_root_path_mounted_def internal_root_mounted_def table_simps collab_defs
      calm_env_def idle_world_def)

section \<open>Filesystem detection\<close>

lemma set_fs_names: "map name (set_fs roots i opt) = map name roots"
  by (cases "i < length roots") (simp_all add: set_fs_def map_update list_update_same_conv not_less list_update_beyond)

lemma set_fs_mount_point:
  "i < length roots \<Longrightarrow> mount_point (set_fs roots i opt ! i) = mount_point (roots ! i)"
  by (simp add: set_fs_def)

lemma ensure_root_path_unmounted_works:
  assumes "get_root_info_for_path roots root_path = Some i"
    and "mount_point (roots ! i) = Some mp"
    and "\<forall>x. 0 \<le> scan_result e x" and "\<forall>x. unmount_result e mp x = 0"
  shows "fst (ensure_root_path_unmounted e roots root_path w) = 0 \<and>
         mp \<notin> mounts (snd (ensure_root_path_unmounted e roots root_path w))"
  using assms
  by (auto simp: ensure_root_path_unmounted_def collab_defs Let_def not_less
      split: option.splits if_splits)

lemma mount_internal_failure:
  "mount_internal e dev mp fs fo w = Inr (r, w1) \<Longrightarrow> r \<noteq> 0 \<Longrightarrow> mounts w1 = mounts w"
  by (auto simp: mount_internal_def collab_defs Let_def split: if_splits option.splits shell_cmd.splits)

lemma detect_loop_unmounted:
  assumes lookup: "get_root_info_for_path roots root_path = Some i"
    and mp: "mount_point (roots ! i) = Some mp"
    and env: "\<forall>x. 0 \<le> scan_result e x" "\<forall>x. unmount_result e mp x = 0"
  shows "detect_loop e roots root_path i dev opts w = Inr (r, roots', w') \<Longrightarrow>
         mp \<notin> mounts w \<Longrightarrow> mp \<notin> mounts w'"
proof (induction opts arbitrary: w)
  case Nil
  then show ?case by simp
next
  case (Cons opt rest)
  from Cons.prems(1) obtain r1 w1 where
    mi: "mount_internal e dev (mount_point (roots ! i)) (fst opt) (Some (snd opt)) w = Inr (r1, w1)"
    by (auto simp: and_then_def split: sum.splits)
  show ?case
  proof (cases "r1 = 0")
    case True
    have i: "i < length roots"
      using lookup by (rule get_root_info_for_path_bound)
    have lookup': "get_root_info_for_path (set_fs roots i opt) root_path = Some i"
      using get_root_info_for_path_names [OF set_fs_names] lookup by simp
    have mp': "mount_point (set_fs roots i opt ! i) = Some mp"
      using set_fs_mount_point [OF i] mp by simp
    from Cons.prems(1) mi True
    have "w' = snd (ensure_root_path_unmounted e (set_fs roots i opt) root_path w1)"
      by (auto simp: and_then_def Let_def split: prod.splits)
    with ensure_root_path_unmounted_works [OF lookup' mp' env] show ?thesis
      by simp
  next
    case False
    with Cons.prems(1) mi have rest: "detect_loop e roots root_path i dev rest w1 = Inr (r, roots', w')"
      by (simp add: and_then_def)
    from mount_internal_failure [OF mi False] Cons.prems(2) have "mp \<notin> mounts w1"
      by simp
    with Cons.IH [OF rest] show ?thesis .
  qed
qed

text \<open>
  C2 (as amended). Let the label resolve to an entry with a device and a mount point, and
  let \<open>detect_internal_fs\<close> return. If every rescan of the mount table and every unmount
  of the mount point succeeds, the mount point is not in the mount table afterwards,
  whether the detection succeeded or not. If the unmount at the start fails,
  \<open>detect_internal_fs\<close> returns that failure and leaves the table of roots and the world
  as the failed unmount left them (a volume that was mounted stays mounted).
\<close>

theorem detect_internal_fs_unmounted:
  assumes lookup: "get_root_info_for_path roots root_path = Some i"
    and dev: "device (roots ! i) = Some dev"
    and mp: "mount_point (roots ! i) = Some mp"
    and ret: "detect_internal_fs e roots root_path w = Inr (r, roots', w')"
  shows "((\<forall>x. 0 \<le> scan_result e x) \<and> (\<forall>x. unmount_result e mp x = 0)
            \<longrightarrow> mp \<notin> mounts w')
         \<and> (fst (ensure_root_path_unmounted e roots root_path w) < 0
            \<longrightarrow> r = fst (ensure_root_path_unmounted e roots root_path w) \<and> roots' = roots
                \<and> w' = snd (ensure_root_path_unmounted e roots root_path w))"
proof (rule conjI; rule impI)
  assume env: "(\<forall>x. 0 \<le> scan_result e x) \<and> (\<forall>x. unmount_result e mp x = 0)"
  then have env1: "\<forall>x. 0 \<le> scan_result e x" and env2: "\<forall>x. unmount_result e mp x = 0"
    by simp_all
  obtain ret w1 where eu: "ensure_root_path_unmounted e roots root_path w = (ret, w1)"
    by (cases "ensure_root_path_unmounted e roots root_path w")
  with ensure_root_path_unmounted_works [OF lookup mp env1 env2, of w]
  have ok: "ret = 0" "mp \<notin> mounts w1"
    by simp_all
  with ret lookup dev eu
  have "detect_loop e roots root_path i (cstring dev) g_fs_options w1 = Inr (r, roots', w')"
    by (simp add: detect_internal_fs_def)
  from detect_loop_unmounted [OF lookup mp env1 env2 this ok(2)] show "mp \<notin> mounts w'" .
next
  assume "fst (ensure_root_path_unmounted e roots root_path w) < 0"
  with ret lookup dev
  show "r = fst (ensure_root_path_unmounted e roots root_path w) \<and> roots' = roots
          \<and> w' = snd (ensure_root_path_unmounted e roots root_path w)"
    by (auto simp: detect_internal_fs_def split: prod.splits)
qed

lemmas cache_simps = detect_internal_fs_def ensure_root_path_unmounted_def table_simps
  collab_defs calm_env_def idle_world_def mount_internal_def and_then_def g_fs_options_def
  set_fs_def PATH_MAX_def

theorem detect_internal_fs_unmounted_witness:
  "''/cache'' \<notin> mounts
     \<lparr>mounts = {},
      trace = [ScanMountedVolumes, UnmountMountedVolume ''/cache'',
               System ''mount -t rfs -ollw,check=no /dev/block/stl11 /cache'',
               ScanMountedVolumes, UnmountMountedVolume ''/cache'']\<rparr>
   \<and> ensure_root_path_unmounted (calm_env\<lparr>unmount_result := (\<lambda>v w. - 1)\<rparr>) g_roots ''CACHE:''
       \<lparr>mounts = {''/cache''}, trace = []\<rparr> =
     (- 1, \<lparr>mounts = {''/cache''},
            trace = [ScanMountedVolumes, UnmountMountedVolume ''/cache'']\<rparr>)"
proof -
  have lookup: "get_root_info_for_path g_roots ''CACHE:'' = Some 0"
    by (simp add: table_simps)
  have dev: "device (g_roots ! 0) = Some (Literal ''/dev/block/stl11'')"
    and mp: "mount_point (g_roots ! 0) = Some ''/cache''"
    by (simp_all add: g_roots_def mk_root_def)
  have calm: "detect_internal_fs calm_env g_roots ''CACHE:''
                \<lparr>mounts = {''/cache''}, trace = []\<rparr> =
      Inr (0, set_fs g_roots 0 (''rfs'', ''llw,check=no''),
           \<lparr>mounts = {},
            trace = [ScanMountedVolumes, UnmountMountedVolume ''/cache'',
                     System ''mount -t rfs -ollw,check=no /dev/block/stl11 /cache'',
                     ScanMountedVolumes, UnmountMountedVolume ''/cache'']\<rparr>)"
    by (simp add: cache_simps)
  have busy: "detect_internal_fs (calm_env\<lparr>unmount_result := (\<lambda>v w. - 1)\<rparr>) g_roots ''CACHE:''
                \<lparr>mounts = {''/cache''}, trace = []\<rparr> =
      Inr (- 1, g_roots,
           \<lparr>mounts = {''/cache''},
            trace = [ScanMountedVolumes, UnmountMountedVolume ''/cache'']\<rparr>)"
    by (simp add: cache_simps)
  have failed: "fst (ensure_root_path_unmounted (calm_env\<lparr>unmount_result := (\<lambda>v w. - 1)\<rparr>)
                       g_roots ''CACHE:'' \<lparr>mounts = {''/cache''}, trace = []\<rparr>) < 0"
    by (simp add: cache_simps)
  show ?thesis
    using detect_internal_fs_unmounted [OF lookup dev mp calm]
      detect_internal_fs_unmounted [OF lookup dev mp busy] failed
    by (simp add: calm_env_def prod_eq_iff)
qed

text \<open>The claim as stated fails. With \<^verbatim>\<open>/cache\<close> mounted and the unmount refused,
  \<^verbatim>\<open>detect_internal_fs("CACHE:")\<close> returns the failure and \<^verbatim>\<open>/cache\<close> is still mounted.
  With nothing mounted and the unmount refused, the trial mount as rfs succeeds, the
  unmount after it fails, its result is dropped, and the operation returns 0 with
  \<^verbatim>\<open>/cache\<close> mounted. And \<^verbatim>\<open>TMP:\<close> has no device: with \<^verbatim>\<open>/tmp\<close> mounted,
  \<^verbatim>\<open>detect_internal_fs("TMP:")\<close> fails without a single call, whatever the environment.\<close>

theorem detect_internal_fs_counterexample:
  "detect_internal_fs (calm_env\<lparr>unmount_result := (\<lambda>v w. - 1)\<rparr>) g_roots ''CACHE:''
     \<lparr>mounts = {''/cache''}, trace = []\<rparr> =
   Inr (- 1, g_roots,
        \<lparr>mounts = {''/cache''},
         trace = [ScanMountedVolumes, UnmountMountedVolume ''/cache'']\<rparr>)
   \<and> detect_internal_fs (calm_env\<lparr>unmount_result := (\<lambda>v w. - 1)\<rparr>) g_roots ''CACHE:''
     idle_world =
   Inr (0, set_fs g_roots 0 (''rfs'', ''llw,check=no''),
        \<lparr>mounts = {''/cache''},
         trace = [ScanMountedVolumes,
                  System ''mount -t rfs -ollw,check=no /dev/block/stl11 /cache'',
                  ScanMountedVolumes, UnmountMountedVolume ''/cache'']\<rparr>)
   \<and> detect_internal_fs calm_env g_roots ''TMP:'' \<lparr>mounts = {''/tmp''}, trace = []\<rparr> =
   Inr (- 1, g_roots, \<lparr>mounts = {''/tmp''}, trace = []\<rparr>)"
  by (simp add: cache_simps)

section \<open>Formatting\<close>

text \<open>
  C6. Let the label resolve to an entry with a device and a mount point. Then
  \<open>format_root_device\<close> starts with \<open>ensure_root_path_unmounted\<close>, and if that fails
  (the mount table cannot be read, or the volume is mounted and the unmount is refused) it
  returns that failure at once: the mount table is as it was, so a mounted volume is still
  mounted, and the only calls made are the rescan of the mount table and, when the volume
  was found mounted, the unmount. No flash, MMC or external formatter runs.
\<close>

theorem format_root_device_busy:
  assumes lookup: "get_root_info_for_path roots root = Some i"
    and dev: "device (roots ! i) = Some dev"
    and mp: "mount_point (roots ! i) = Some mp"
    and unmount: "ensure_root_path_unmounted e roots root w = (ret, w1)"
    and failed: "ret < 0"
  shows "format_root_device e roots root w = Inr (ret, w1)
         \<and> mounts w1 = mounts w
         \<and> (trace w1 = trace w @ [ScanMountedVolumes]
            \<or> mp \<in> mounts w
              \<and> trace w1 = trace w @ [ScanMountedVolumes, UnmountMountedVolume mp])"
proof -
  have "format_root_device e roots root w = Inr (ret, w1)"
    using lookup dev mp unmount failed by (simp add: format_root_device_def Let_def)
  moreover have "mounts w1 = mounts w
      \<and> (trace w1 = trace w @ [ScanMountedVolumes]
         \<or> mp \<in> mounts w
           \<and> trace w1 = trace w @ [ScanMountedVolumes, UnmountMountedVolume mp])"
    using lookup mp unmount failed
    by (auto simp: ensure_root_path_unmounted_def collab_defs Let_def
        split: if_splits option.splits)
  ultimately show ?thesis by simp
qed

theorem format_root_device_busy_witness:
  "format_root_device (calm_env\<lparr>unmount_result := (\<lambda>v w. - 1)\<rparr>) g_roots ''SYSTEM:''
     \<lparr>mounts = {''/system''}, trace = []\<rparr> =
   Inr (- 1, \<lparr>mounts = {''/system''},
              trace = [ScanMountedVolumes, UnmountMountedVolume ''/system'']\<rparr>)"
proof -
  have lookup: "get_root_info_for_path g_roots ''SYSTEM:'' = Some 3"
    by (simp add: table_simps)
  have dev: "device (g_roots ! 3) = Some (Literal ''/dev/block/stl9'')"
    and mp: "mount_point (g_roots ! 3) = Some ''/system''"
    by (simp_all add: g_roots_def mk_root_def)
  have unmount: "ensure_root_path_unmounted (calm_env\<lparr>unmount_result := (\<lambda>v w. - 1)\<rparr>) g_roots
                   ''SYSTEM:'' \<lparr>mounts = {''/system''}, trace = []\<rparr> =
                 (- 1, \<lparr>mounts = {''/system''},
                        trace = [ScanMountedVolumes, UnmountMountedVolume ''/system'']\<rparr>)"
    by (simp add: ensure_root_path_unmounted_def table_simps collab_defs calm_env_def)
  show ?thesis
    using format_root_device_busy [OF lookup dev mp unmount] by simp
qed

lemma format_generic_ext3:
  assumes "filesystem info = Some (Literal ''ext3'')"
  shows "format_generic e info G_mmc_device root w =
           Inr (if system_result e ''/sbin/mke2fs -T ext3 -F -j -q -m 0 -b 4096 -O ^huge_file,extent  @'' w = 0
                then 0 else - 1,
                record_call (System ''/sbin/mke2fs -T ext3 -F -j -q -m 0 -b 4096 -O ^huge_file,extent  @'') w)"
  using assms by (simp add: format_generic_def sys_system_def Let_def)

text \<open>
  C4. Let the label resolve to an entry whose device is the MMC marker and whose
  filesystem is \<^verbatim>\<open>"ext3"\<close>, let the unmount before formatting (made when the entry has a
  mount point) not fail, and let the MMC partition be found. Then \<open>format_root_device\<close>
  calls the MMC ext3 formatter and drops its result; it goes on to the generic branches,
  where the filesystem is not \<^verbatim>\<open>"rfs"\<close> and begins with \<^verbatim>\<open>"ext"\<close>, so \<^verbatim>\<open>mke2fs\<close> is
  run on the same device (the marker, whose text is \<^verbatim>\<open>"@"\<close>); the result of the operation
  is that of \<^verbatim>\<open>mke2fs\<close> alone.
\<close>

theorem format_root_device_mmc_ext3:
  assumes lookup: "get_root_info_for_path roots root = Some i"
    and dev: "device (roots ! i) = Some G_mmc_device"
    and fs: "filesystem (roots ! i) = Some (Literal ''ext3'')"
    and pre: "(case mount_point (roots ! i) of
                 None \<Rightarrow> (0, w)
               | Some mp \<Rightarrow> ensure_root_path_unmounted e roots root w) = (ret, w1)"
      "0 \<le> ret"
    and part: "mmc_partition e (partition_name (roots ! i)) (record_call MmcScanPartitions w1) =
                 Some p"
  shows "format_root_device e roots root w =
           (let w2 = record_call (MmcFormatExt3 p)
                       (record_call (MmcFindPartitionByName (partition_name (roots ! i)))
                          (record_call MmcScanPartitions w1));
                ext_format = ''/sbin/mke2fs -T ext3 -F -j -q -m 0 -b 4096 -O ^huge_file,extent  @''
            in Inr (if system_result e ext_format w2 = 0 then 0 else - 1,
                    record_call (System ext_format) w2))"
proof -
  have mmc: "format_mtd e (roots ! i) G_mmc_device root w1 =
      format_generic e (roots ! i) G_mmc_device root
        (record_call (MmcFormatExt3 p)
           (record_call (MmcFindPartitionByName (partition_name (roots ! i)))
              (record_call MmcScanPartitions w1)))"
    using fs part
    by (simp add: format_mtd_def format_mmc_def mmc_find_partition_by_name_def
        mmc_scan_partitions_def mmc_format_ext3_def)
  have "format_root_device e roots root w = format_mtd e (roots ! i) G_mmc_device root w1"
    using lookup dev pre
    by (auto simp: format_root_device_def Let_def not_less split: option.splits)
  then show ?thesis
    using mmc format_generic_ext3 [OF fs] by (simp add: Let_def)
qed

theorem format_root_device_mmc_ext3_witness:
  "format_root_device (calm_env\<lparr>mmc_format_result := (\<lambda>p w. - 1)\<rparr>)
     [mk_root ''DATA:'' (Some G_mmc_device) None (Some ''userdata'') (Some ''/data'')
        (Some (Literal ''ext3'')) None]
     ''DATA:'' idle_world =
   Inr (0, \<lparr>mounts = {},
            trace = [ScanMountedVolumes, MmcScanPartitions,
                     MmcFindPartitionByName (Some ''userdata''), MmcFormatExt3 0,
                     System ''/sbin/mke2fs -T ext3 -F -j -q -m 0 -b 4096 -O ^huge_file,extent  @'']\<rparr>)"
proof -
  let ?roots = "[mk_root ''DATA:'' (Some G_mmc_device) None (Some ''userdata'') (Some ''/data'')
                   (Some (Literal ''ext3'')) None]"
  let ?e = "calm_env\<lparr>mmc_format_result := (\<lambda>p w. - 1)\<rparr>"
  have lookup: "get_root_info_for_path ?roots ''DATA:'' = Some 0"
    by (simp add: get_root_info_for_path_def mk_root_def)
  have dev: "device (?roots ! 0) = Some G_mmc_device"
    and fs: "filesystem (?roots ! 0) = Some (Literal ''ext3'')"
    by (simp_all add: mk_root_def)
  have pre: "(case mount_point (?roots ! 0) of
                None \<Rightarrow> (0, idle_world)
              | Some mp \<Rightarrow> ensure_root_path_unmounted ?e ?roots ''DATA:'' idle_world) =
             (0, \<lparr>mounts = {}, trace = [ScanMountedVolumes]\<rparr>)"
    by (simp add: ensure_root_path_unmounted_def get_root_info_for_path_def mk_root_def
        collab_defs calm_env_def idle_world_def)
  have part: "mmc_partition ?e (partition_name (?roots ! 0))
                (record_call MmcScanPartitions \<lparr>mounts = {}, trace = [ScanMountedVolumes]\<rparr>) =
              Some 0"
    by (simp add: calm_env_def)
  show ?thesis
    using format_root_device_mmc_ext3 [OF lookup dev fs pre _ part]
    by (simp add: calm_env_def record_call_def mk_root_def)
qed

end
